theory Spec2Isabelle
  imports Main "HOL-Library.Word"
begin

section \<open>Go types and values as the reflect package shows them\<close>

text \<open>
  The decoder of package \<open>structd\<close> works on \<open>reflect.Type\<close> and \<open>reflect.Value\<close>.
  The type universe modelled here is: the predeclared boolean, integer, floating-point and
  string types, defined (named) types, pointers, slices and structs. Interface, map, array,
  channel, function and complex types are outside the universe, so \<open>AssignableTo\<close> is
  reflect's \<open>directlyAssignable\<close> (its second disjunct, \<open>implements\<close>, only concerns
  interface targets). Integers are 64-bit platform integers (\<open>strconv.IntSize = 64\<close>).
\<close>

datatype Kind =
    KInvalid | KBool | KInt | KInt8 | KInt16 | KInt32 | KInt64
  | KUint | KUint8 | KUint16 | KUint32 | KUint64
  | KFloat32 | KFloat64 | KPointer | KSlice | KString | KStruct

text \<open>The predeclared types \<open>bool\<close>, \<open>int\<close>, ..., \<open>string\<close>.\<close>

datatype Basic =
    TBool | TInt | TInt8 | TInt16 | TInt32 | TInt64
  | TUint | TUint8 | TUint16 | TUint32 | TUint64
  | TFloat32 | TFloat64 | TString

text \<open>
  A struct field as \<open>reflect.StructField\<close>: \<open>PkgPath\<close> is empty exactly for exported
  fields; the tag is kept in parsed form, the list of its \<open>key:"value"\<close> pairs in order.
  \<open>Named pkg name u\<close> is the defined type \<open>pkg.name\<close> with underlying type \<open>u\<close>.
\<close>

datatype gtype =
    Predeclared Basic
  | Named string string gtype
  | PointerTo gtype
  | SliceOf gtype
  | StructOf "StructField list"
and StructField =
    StructField (Name: string) (PkgPath: string) (Type: gtype) (Tag: "(string \<times> string) list")

text \<open>
  The data of a value, without its type: integers of every width are an \<open>int\<close>, floats
  are their IEEE bit patterns, a slice is nil (\<open>None\<close>) or its elements, a pointer is nil
  or the variable it points to, a struct is its field values in declaration order.
\<close>

datatype gdata =
    DBool bool
  | DInt int
  | DFloat32 "32 word"
  | DFloat64 "64 word"
  | DString string
  | DSlice "gdata list option"
  | DPointer "gdata option"
  | DStruct "gdata list"

text \<open>A value of interface type \<open>any\<close>: nil, or a dynamic type with its data.\<close>

type_synonym any = "(gtype \<times> gdata) option"

fun kind_of_basic :: "Basic \<Rightarrow> Kind" where
  "kind_of_basic TBool = KBool"
| "kind_of_basic TInt = KInt"
| "kind_of_basic TInt8 = KInt8"
| "kind_of_basic TInt16 = KInt16"
| "kind_of_basic TInt32 = KInt32"
| "kind_of_basic TInt64 = KInt64"
| "kind_of_basic TUint = KUint"
| "kind_of_basic TUint8 = KUint8"
| "kind_of_basic TUint16 = KUint16"
| "kind_of_basic TUint32 = KUint32"
| "kind_of_basic TUint64 = KUint64"
| "kind_of_basic TFloat32 = KFloat32"
| "kind_of_basic TFloat64 = KFloat64"
| "kind_of_basic TString = KString"

fun basic_name :: "Basic \<Rightarrow> string" where
  "basic_name TBool = ''bool''"
| "basic_name TInt = ''int''"
| "basic_name TInt8 = ''int8''"
| "basic_name TInt16 = ''int16''"
| "basic_name TInt32 = ''int32''"
| "basic_name TInt64 = ''int64''"
| "basic_name TUint = ''uint''"
| "basic_name TUint8 = ''uint8''"
| "basic_name TUint16 = ''uint16''"
| "basic_name TUint32 = ''uint32''"
| "basic_name TUint64 = ''uint64''"
| "basic_name TFloat32 = ''float32''"
| "basic_name TFloat64 = ''float64''"
| "basic_name TString = ''string''"

text \<open>\<open>Type.Kind()\<close>: a defined type has the kind of its underlying type.\<close>

fun TypeKind :: "gtype \<Rightarrow> Kind" where
  "TypeKind (Predeclared b) = kind_of_basic b"
| "TypeKind (Named p n u) = TypeKind u"
| "TypeKind (PointerTo t) = KPointer"
| "TypeKind (SliceOf t) = KSlice"
| "TypeKind (StructOf fs) = KStruct"

text \<open>
  \<open>Type.Elem()\<close>, which the code calls on pointer and slice kinds only (reflect panics
  on the others; no path of the code reaches that, and the model returns the type itself).
\<close>

fun Elem :: "gtype \<Rightarrow> gtype" where
  "Elem (PointerTo t) = t"
| "Elem (SliceOf t) = t"
| "Elem (Named p n u) = Elem u"
| "Elem t = t"

text \<open>\<open>Type.Name()\<close>: empty for a type that is not defined.\<close>

fun TypeName :: "gtype \<Rightarrow> string" where
  "TypeName (Predeclared b) = basic_name b"
| "TypeName (Named p n u) = n"
| "TypeName t = []"

fun HasName :: "gtype \<Rightarrow> bool" where
  "HasName (Predeclared b) = True"
| "HasName (Named p n u) = True"
| "HasName t = False"

fun underlying :: "gtype \<Rightarrow> gtype" where
  "underlying (Named p n u) = underlying u"
| "underlying t = t"

text \<open>The struct fields of a type of struct kind (\<open>Type.Field(i)\<close> reads this list).\<close>

fun Fields :: "gtype \<Rightarrow> StructField list" where
  "Fields (StructOf fs) = fs"
| "Fields (Named p n u) = Fields u"
| "Fields t = []"

text \<open>
  reflect's \<open>directlyAssignable(T, V)\<close>: the types are identical, or at most one of them
  is defined, they have the same kind and identical underlying types (tags included).
\<close>

definition directlyAssignable :: "gtype \<Rightarrow> gtype \<Rightarrow> bool" where
  "directlyAssignable T V =
     (if T = V then True
      else if (HasName T \<and> HasName V) \<or> TypeKind T \<noteq> TypeKind V then False
      else underlying T = underlying V)"

text \<open>\<open>V.AssignableTo(T)\<close>.\<close>

definition AssignableTo :: "gtype \<Rightarrow> gtype \<Rightarrow> bool" where
  "AssignableTo V T = directlyAssignable T V"

text \<open>\<open>StructField.IsExported()\<close> and \<open>StructTag.Lookup(key)\<close>.\<close>

definition IsExported :: "StructField \<Rightarrow> bool" where
  "IsExported f = (PkgPath f = [])"

definition Lookup :: "(string \<times> string) list \<Rightarrow> string \<Rightarrow> string option" where
  "Lookup tag k = map_of tag k"

text \<open>
  \<open>Value.IsZero()\<close> (Go 1.22, which the range-over-integer loop of \<open>Decode\<close> needs):
  a float is zero when it compares equal to 0, that is for both signed zeros.
\<close>

fun IsZero :: "gdata \<Rightarrow> bool" where
  "IsZero (DBool b) = (\<not> b)"
| "IsZero (DInt i) = (i = 0)"
| "IsZero (DFloat32 w) = (take_bit 31 w = 0)"
| "IsZero (DFloat64 w) = (take_bit 63 w = 0)"
| "IsZero (DString s) = (s = [])"
| "IsZero (DSlice xs) = (xs = None)"
| "IsZero (DPointer p) = (p = None)"
| "IsZero (DStruct ds) = list_all IsZero ds"

text \<open>The zero value of a type (\<open>reflect.New(t).Elem()\<close>, \<open>var n T\<close>).\<close>

primrec zero :: "gtype \<Rightarrow> gdata"
  and zero_field :: "StructField \<Rightarrow> gdata" where
  "zero (Predeclared b) =
     (if b = TBool then DBool False
      else if b = TString then DString []
      else if b = TFloat32 then DFloat32 0
      else if b = TFloat64 then DFloat64 0
      else DInt 0)"
| "zero (Named p n u) = zero u"
| "zero (PointerTo t) = DPointer None"
| "zero (SliceOf t) = DSlice None"
| "zero (StructOf fs) = DStruct (map zero_field fs)"
| "zero_field (StructField n p t tag) = zero t"

section \<open>Errors and outcomes\<close>

text \<open>
  The error values the code can return. \<open>NumError f num e\<close> is \<open>*strconv.NumError\<close>
  with its fields \<open>Func\<close>, \<open>Num\<close> and \<open>Err\<close>; \<open>ErrUnsupported\<close> is
  \<open>errors.ErrUnsupported\<close>; \<open>ErrorString\<close> is an error made by user code. The other four
  are the error types of \<open>structd/error.go\<close>, with their fields in declaration order.
\<close>

datatype strconv_err = ErrSyntax | ErrRange

datatype goerror =
    ErrUnsupported
  | ErrorString string
  | NumError string string strconv_err
  | CastError goerror
  | UnmarshalerError goerror string gtype
  | InvalidUnmarshalError "gtype option"
  | UnmarshalTypeError string gtype string string

text \<open>A call returns or panics.\<close>

datatype 'a outcome = Returned 'a | Panic

text \<open>\<open>wrapCastErr\<close> of \<open>structd/error.go\<close>.\<close>

definition wrapCastErr :: "goerror option \<Rightarrow> goerror option" where
  "wrapCastErr err = (case err of None \<Rightarrow> None | Some e \<Rightarrow> Some (CastError e))"

text \<open>
  \<open>Type.String()\<close>. A struct type prints its fields; a tag is printed in its conventional
  form, as a quoted Go string.
\<close>

definition tag_pair_string :: "string \<times> string \<Rightarrow> string" where
  "tag_pair_string kv = fst kv @ '':'' @ [CHR 0x5C, CHR 0x22] @ snd kv @ [CHR 0x5C, CHR 0x22]"

fun join :: "string list \<Rightarrow> string \<Rightarrow> string" where
  "join [] sep = []"
| "join [x] sep = x"
| "join (x # y # ys) sep = x @ sep @ join (y # ys) sep"

primrec TypeString :: "gtype \<Rightarrow> string"
  and FieldString :: "StructField \<Rightarrow> string" where
  "TypeString (Predeclared b) = basic_name b"
| "TypeString (Named p n u) = p @ ''.'' @ n"
| "TypeString (PointerTo t) = ''*'' @ TypeString t"
| "TypeString (SliceOf t) = ''[]'' @ TypeString t"
| "TypeString (StructOf fs) =
     (if fs = [] then ''struct {}''
      else ''struct { '' @ join (map FieldString fs) ''; '' @ '' }'')"
| "FieldString (StructField n p t tag) =
     n @ '' '' @ TypeString t @
     (if tag = [] then [] else '' '' @ [CHR 0x22] @ join (map tag_pair_string tag) '' '' @ [CHR 0x22])"

text \<open>\<open>(*InvalidUnmarshalError).Error\<close> of \<open>structd/error.go\<close>.\<close>

definition InvalidUnmarshalError_Error :: "gtype option \<Rightarrow> string" where
  "InvalidUnmarshalError_Error e =
     (case e of
        None \<Rightarrow> ''structd: Unmarshal(nil)''
      | Some t \<Rightarrow>
          if TypeKind t \<noteq> KPointer then ''structd: Unmarshal(non-pointer '' @ TypeString t @ '')''
          else if TypeKind (Elem t) \<noteq> KStruct then
            ''structd: Unmarshal(non-struct '' @ TypeString t @ '')''
          else ''structd: Unmarshal(nil '' @ TypeString t @ '')'')"

section \<open>The library functions the coercion uses\<close>

subsection \<open>strconv.ParseUint and strconv.ParseInt in base 10\<close>

text \<open>
  \<open>strconv.ParseUint(s, 10, bitSize)\<close>: the accumulator is a \<open>uint64\<close>, modelled as a
  natural number with the wrap-around of the addition written out. The loop stops at the
  first byte that is not a decimal digit (a syntax error) or at the first digit that takes
  the value past \<open>maxVal\<close> (a range error), whichever comes first.
\<close>

definition is_digit :: "char \<Rightarrow> bool" where
  "is_digit c = (of_char c \<ge> (48::nat) \<and> of_char c \<le> (57::nat))"

definition digit_val :: "char \<Rightarrow> nat" where
  "digit_val c = of_char c - 48"

definition maxUint64 :: nat where
  "maxUint64 = 2 ^ 64 - 1"

definition uint_cutoff :: nat where
  "uint_cutoff = maxUint64 div 10 + 1"

text \<open>\<open>uint64(1)<<uint(bitSize) - 1\<close>, in 64-bit arithmetic.\<close>

definition maxVal :: "nat \<Rightarrow> nat" where
  "maxVal bitSize = (2 ^ bitSize mod 2 ^ 64 + 2 ^ 64 - 1) mod 2 ^ 64"

fun ParseUint_loop :: "nat \<Rightarrow> string \<Rightarrow> nat \<Rightarrow> nat \<times> strconv_err option" where
  "ParseUint_loop bitSize [] n = (n, None)"
| "ParseUint_loop bitSize (c # cs) n =
     (if \<not> is_digit c then (0, Some ErrSyntax)
      else if n \<ge> uint_cutoff then (maxVal bitSize, Some ErrRange)
      else
        let m = n * 10;
            n1 = (m + digit_val c) mod 2 ^ 64
        in if n1 < m \<or> n1 > maxVal bitSize then (maxVal bitSize, Some ErrRange)
           else ParseUint_loop bitSize cs n1)"

definition ParseUint :: "string \<Rightarrow> nat \<Rightarrow> nat \<times> goerror option" where
  "ParseUint s bitSize =
     (if s = [] then (0, Some (NumError ''ParseUint'' s ErrSyntax))
      else case ParseUint_loop bitSize s 0 of
             (n, None) \<Rightarrow> (n, None)
           | (n, Some e) \<Rightarrow> (n, Some (NumError ''ParseUint'' s e)))"

text \<open>
  \<open>strconv.ParseInt(s, 10, bitSize)\<close>: an optional sign, then \<open>ParseUint\<close> on the rest. A
  syntax error is returned under the name \<open>ParseInt\<close>; after a range error of
  \<open>ParseUint\<close> the value is \<open>maxVal\<close> and fails the range test below. The result is
  \<open>int64(un)\<close>, negated for a minus sign, both in 64-bit two's complement.
\<close>

definition to_int64 :: "nat \<Rightarrow> int" where
  "to_int64 u = (if u < 2 ^ 63 then int u else int u - 2 ^ 64)"

definition neg_int64 :: "int \<Rightarrow> int" where
  "neg_int64 n = (if n = - (2 ^ 63) then n else - n)"

definition ParseInt :: "string \<Rightarrow> nat \<Rightarrow> int \<times> goerror option" where
  "ParseInt s bitSize =
     (if s = [] then (0, Some (NumError ''ParseInt'' s ErrSyntax))
      else
        let neg = (hd s = CHR ''-'');
            s1 = (if hd s = CHR ''+'' \<or> hd s = CHR ''-'' then tl s else s);
            r = ParseUint s1 bitSize;
            un = fst r;
            cutoff = (2::nat) ^ (bitSize - 1)
        in if (case snd r of Some (NumError f num ErrSyntax) \<Rightarrow> True | _ \<Rightarrow> False)
           then (0, Some (NumError ''ParseInt'' s ErrSyntax))
           else if \<not> neg \<and> un \<ge> cutoff then (int cutoff - 1, Some (NumError ''ParseInt'' s ErrRange))
           else if neg \<and> un > cutoff then (- int cutoff, Some (NumError ''ParseInt'' s ErrRange))
           else (if neg then neg_int64 (to_int64 un) else to_int64 un, None))"

text \<open>
  \<open>strconv.ParseBool\<close>.
\<close>

definition ParseBool :: "string \<Rightarrow> bool \<times> goerror option" where
  "ParseBool str =
     (if str \<in> set [''1'', ''t'', ''T'', ''TRUE'', ''true'', ''True''] then (True, None)
      else if str \<in> set [''0'', ''f'', ''F'', ''FALSE'', ''false'', ''False''] then (False, None)
      else (False, Some (NumError ''ParseBool'' str ErrSyntax)))"

subsection \<open>strings.Split and the verb \<open>%d\<close>\<close>

text \<open>\<open>strings.Split(s, sep)\<close> for a separator of one byte: one part more than separators.\<close>

fun Split :: "string \<Rightarrow> char \<Rightarrow> string list" where
  "Split [] sep = [[]]"
| "Split (c # cs) sep =
     (if c = sep then [] # Split cs sep
      else case Split cs sep of
             [] \<Rightarrow> [[c]]
           | p # ps \<Rightarrow> (c # p) # ps)"

definition DefaultSeperator :: char where
  "DefaultSeperator = CHR '',''"

text \<open>The decimal digits of a natural number, and \<open>fmt.Sprintf("%d", i)\<close> for an integer.\<close>

definition digit_char :: "nat \<Rightarrow> char" where
  "digit_char d = char_of (48 + d)"

fun digits :: "nat \<Rightarrow> string" where
  "digits n = (if n < 10 then [digit_char n] else digits (n div 10) @ [digit_char (n mod 10)])"

definition FormatInt :: "int \<Rightarrow> string" where
  "FormatInt i = (if i < 0 then CHR ''-'' # digits (nat (- i)) else digits (nat i))"

declare digits.simps [simp del]

subsection \<open>Floating point and user methods\<close>

text \<open>
  Three things the coercion calls are not code of this package and are taken as they come:
  \<^item> \<open>ParseFloat E s bitSize\<close> is \<open>strconv.ParseFloat\<close>, returning the bits of a
    \<open>float64\<close> and an error or none;
  \<^item> \<open>ToFloat32 E\<close> is the conversion \<open>float32(x)\<close>, and \<open>FormatFloat32 E\<close>,
    \<open>FormatFloat64 E\<close> print a float under the verb \<open>%v\<close>;
  \<^item> \<open>Unmarshaler E t\<close> is the method \<open>UnmarshalString\<close> in the method set of
    \<open>*t\<close>, if \<open>*t\<close> implements the interface \<open>Unmarshaler\<close>: it takes the
    receiver's variable and the text, and returns the variable as the call leaves it
    and the error or none.
\<close>

record stdlib =
  ParseFloat :: "string \<Rightarrow> nat \<Rightarrow> 64 word \<times> goerror option"
  ToFloat32 :: "64 word \<Rightarrow> 32 word"
  FormatFloat32 :: "32 word \<Rightarrow> string"
  FormatFloat64 :: "64 word \<Rightarrow> string"
  Unmarshaler :: "gtype \<Rightarrow> (gdata \<Rightarrow> string \<Rightarrow> gdata \<times> goerror option) option"

section \<open>The coercion: parse and DefaultCast\<close>

text \<open>\<open>Type.Bits()\<close> of the numeric types, on a 64-bit platform.\<close>

fun Bits :: "Basic \<Rightarrow> nat" where
  "Bits TInt = 64"
| "Bits TInt8 = 8"
| "Bits TInt16 = 16"
| "Bits TInt32 = 32"
| "Bits TInt64 = 64"
| "Bits TUint = 64"
| "Bits TUint8 = 8"
| "Bits TUint16 = 16"
| "Bits TUint32 = 32"
| "Bits TUint64 = 64"
| "Bits TFloat32 = 32"
| "Bits TFloat64 = 64"
| "Bits TBool = 0"
| "Bits TString = 0"

text \<open>
  The conversions \<open>T(i)\<close> at the end of each branch of \<open>parse\<close>: from \<open>uint64\<close> to an
  unsigned type (the low bits), from \<open>int64\<close> to a signed type (the low bits, read in
  two's complement), from \<open>float64\<close> to a float type.
\<close>

definition conv_uint :: "Basic \<Rightarrow> nat \<Rightarrow> gdata" where
  "conv_uint T i = DInt (int (i mod 2 ^ Bits T))"

definition conv_int :: "Basic \<Rightarrow> int \<Rightarrow> gdata" where
  "conv_int T i = DInt ((i + 2 ^ (Bits T - 1)) mod 2 ^ Bits T - 2 ^ (Bits T - 1))"

definition conv_float :: "stdlib \<Rightarrow> Basic \<Rightarrow> 64 word \<Rightarrow> gdata" where
  "conv_float E T i = (if T = TFloat32 then DFloat32 (ToFloat32 E i) else DFloat64 i)"

text \<open>
  \<open>parse[T](s)\<close>, for \<open>T\<close> one of the twelve numeric types of the constraint
  \<open>numbers\<close>. On an error the result is the zero value \<open>n\<close> of \<open>T\<close> with the error.
\<close>

definition parse :: "stdlib \<Rightarrow> Basic \<Rightarrow> string \<Rightarrow> any \<times> goerror option" where
  "parse E T s =
     (let rt = Predeclared T;
          n = zero rt
      in if TypeKind rt = KFloat32 \<or> TypeKind rt = KFloat64 then
           (case ParseFloat E s (Bits T) of
              (i, Some err) \<Rightarrow> (Some (rt, n), Some err)
            | (i, None) \<Rightarrow> (Some (rt, conv_float E T i), None))
         else if TypeKind rt = KUint \<or> TypeKind rt = KUint8 \<or> TypeKind rt = KUint16
                 \<or> TypeKind rt = KUint32 \<or> TypeKind rt = KUint64 then
           (case ParseUint s (Bits T) of
              (i, Some err) \<Rightarrow> (Some (rt, n), Some err)
            | (i, None) \<Rightarrow> (Some (rt, conv_uint T i), None))
         else
           (case ParseInt s (Bits T) of
              (i, Some err) \<Rightarrow> (Some (rt, n), Some err)
            | (i, None) \<Rightarrow> (Some (rt, conv_int T i), None)))"

text \<open>
  \<open>Value.Set(reflect.ValueOf(x))\<close> and each step of \<open>reflect.Append\<close> store \<open>x\<close> in a
  variable of type \<open>dst\<close>: reflect panics (\<open>None\<close>) when \<open>x\<close> is nil or when its type is
  not assignable to \<open>dst\<close>.
\<close>

definition assignTo :: "gtype \<Rightarrow> any \<Rightarrow> gdata option" where
  "assignTo dst x =
     (case x of
        None \<Rightarrow> None
      | Some (t, v) \<Rightarrow> if AssignableTo t dst then Some v else None)"

text \<open>
  The loop of the slice branch: \<open>cast\<close> is the recursive call on one entry, \<open>result\<close>
  the slice built so far (nil at the start).
\<close>

fun append_entries ::
  "(string \<Rightarrow> (any \<times> goerror option) outcome) \<Rightarrow> gtype \<Rightarrow> string list \<Rightarrow> gdata list option
     \<Rightarrow> (any \<times> goerror option) outcome" where
  "append_entries cast to [] result = Returned (Some (to, DSlice result), None)"
| "append_entries cast to (entry # rest) result =
     (case cast entry of
        Panic \<Rightarrow> Panic
      | Returned (v, Some err) \<Rightarrow> Returned (None, Some err)
      | Returned (v, None) \<Rightarrow>
          (case assignTo (Elem to) v of
             None \<Rightarrow> Panic
           | Some x \<Rightarrow>
               append_entries cast to rest
                 (Some ((case result of None \<Rightarrow> [] | Some xs \<Rightarrow> xs) @ [x]))))"

text \<open>
  \<open>fmt.Sprintf("%d", from)\<close> for a numeric \<open>from\<close>: an integer prints in decimal; for a
  float \<open>%d\<close> is a wrong verb, and \<open>fmt\<close> prints the verb, the type and the value under
  \<open>%v\<close>.
\<close>

definition Sprintf_d :: "stdlib \<Rightarrow> gdata \<Rightarrow> string" where
  "Sprintf_d E d =
     (case d of
        DInt i \<Rightarrow> FormatInt i
      | DFloat32 w \<Rightarrow> ''%!d(float32='' @ FormatFloat32 E w @ '')''
      | DFloat64 w \<Rightarrow> ''%!d(float64='' @ FormatFloat64 E w @ '')''
      | _ \<Rightarrow> [])"

definition boxed_string :: "string \<Rightarrow> any" where
  "boxed_string s = Some (Predeclared TString, DString s)"

definition boxed_bool :: "bool \<Rightarrow> any" where
  "boxed_bool b = Some (Predeclared TBool, DBool b)"

definition numeric_types :: "gtype list" where
  "numeric_types = map Predeclared
     [TUint, TInt, TUint8, TUint16, TUint32, TUint64, TInt8, TInt16, TInt32, TInt64,
      TFloat32, TFloat64]"

lemma kind_of_basic_not_composite:
  "kind_of_basic b \<noteq> KSlice" "kind_of_basic b \<noteq> KPointer" "kind_of_basic b \<noteq> KStruct"
  "kind_of_basic b \<noteq> KInvalid"
  by (cases b; simp)+

lemma size_Elem_less: "TypeKind t = KSlice \<Longrightarrow> size (Elem t) < size t"
  by (induction t rule: TypeKind.induct) (auto simp: kind_of_basic_not_composite)

text \<open>
  \<open>DefaultCast\<close>. The type switch looks at the dynamic type of \<open>from\<close>: the cases are the
  predeclared types themselves, so a value of a defined type (and nil) takes the last
  \<open>default\<close>. In the case of the twelve numeric types \<open>from\<close> keeps the type \<open>any\<close>,
  so \<open>from != 0\<close> compares two interface values, \<open>from\<close> and \<open>int(0)\<close>: they are equal
  when \<open>from\<close> has the dynamic type \<open>int\<close> and the value 0.
\<close>

function DefaultCast :: "stdlib \<Rightarrow> any \<Rightarrow> gtype \<Rightarrow> (any \<times> goerror option) outcome" where
  "DefaultCast E from to =
     (case from of
        None \<Rightarrow> Returned (None, Some ErrUnsupported)
      | Some (ft, fd) \<Rightarrow>
          if ft = Predeclared TString then
            (case fd of
               DString s \<Rightarrow>
                 (case TypeKind to of
                    KUint8 \<Rightarrow> Returned (parse E TUint8 s)
                  | KUint16 \<Rightarrow> Returned (parse E TUint16 s)
                  | KUint32 \<Rightarrow> Returned (parse E TUint32 s)
                  | KUint64 \<Rightarrow> Returned (parse E TUint64 s)
                  | KInt8 \<Rightarrow> Returned (parse E TInt8 s)
                  | KInt16 \<Rightarrow> Returned (parse E TInt16 s)
                  | KInt32 \<Rightarrow> Returned (parse E TInt32 s)
                  | KInt64 \<Rightarrow> Returned (parse E TInt64 s)
                  | KUint \<Rightarrow> Returned (parse E TUint s)
                  | KInt \<Rightarrow> Returned (parse E TInt s)
                  | KFloat32 \<Rightarrow> Returned (parse E TFloat32 s)
                  | KFloat64 \<Rightarrow> Returned (parse E TFloat64 s)
                  | KBool \<Rightarrow>
                      (case ParseBool s of (b, err) \<Rightarrow> Returned (boxed_bool b, err))
                  | KSlice \<Rightarrow>
                      (let split = Split s DefaultSeperator
                       in if TypeKind (Elem to) = KString then
                            Returned (Some (SliceOf (Predeclared TString),
                                            DSlice (Some (map DString split))), None)
                          else
                            append_entries
                              (\<lambda>entry. DefaultCast E (boxed_string entry) (Elem to))
                              to split None)
                  | _ \<Rightarrow>
                      (case Unmarshaler E to of
                         None \<Rightarrow> Returned (None, Some ErrUnsupported)
                       | Some u \<Rightarrow>
                           (case u (zero to) s of
                              (x, Some err) \<Rightarrow> Returned (None, Some (UnmarshalerError err s to))
                            | (x, None) \<Rightarrow> Returned (Some (to, x), None))))
             | _ \<Rightarrow> Returned (None, Some ErrUnsupported))
          else if ft \<in> set numeric_types then
            (case TypeKind to of
               KString \<Rightarrow> Returned (boxed_string (Sprintf_d E fd), None)
             | KBool \<Rightarrow> Returned (boxed_bool (Some (ft, fd) \<noteq> Some (Predeclared TInt, DInt 0)), None)
             | _ \<Rightarrow> Returned (None, Some ErrUnsupported))
          else if ft = Predeclared TBool then
            (let str = (if fd = DBool True then ''1'' else ''0'')
             in case TypeKind to of
                  KString \<Rightarrow>
                    (if fd = DBool True then Returned (boxed_string ''true'', None)
                     else Returned (boxed_string ''false'', None))
                | KUint8 \<Rightarrow> Returned (parse E TUint8 str)
                | KUint16 \<Rightarrow> Returned (parse E TUint16 str)
                | KUint32 \<Rightarrow> Returned (parse E TUint32 str)
                | KUint64 \<Rightarrow> Returned (parse E TUint64 str)
                | KInt8 \<Rightarrow> Returned (parse E TInt8 str)
                | KInt16 \<Rightarrow> Returned (parse E TInt16 str)
                | KInt32 \<Rightarrow> Returned (parse E TInt32 str)
                | KInt64 \<Rightarrow> Returned (parse E TInt64 str)
                | KUint \<Rightarrow> Returned (parse E TUint str)
                | KInt \<Rightarrow> Returned (parse E TInt str)
                | KFloat32 \<Rightarrow> Returned (parse E TFloat32 str)
                | KFloat64 \<Rightarrow> Returned (parse E TFloat64 str)
                | _ \<Rightarrow> Returned (None, Some ErrUnsupported))
          else Returned (None, Some ErrUnsupported))"
  by pat_completeness auto
termination
  by (relation "measure (\<lambda>(E, from, to). size to)") (auto simp: size_Elem_less)

declare DefaultCast.simps [simp del]

section \<open>The decoding engine: Decoder.Decode\<close>

text \<open>
  A \<open>Decoder\<close> holds a getter and a key. The getter is an interface value: \<open>getter d\<close>
  is its method \<open>Get\<close>, and \<open>caster d\<close> is its method \<open>Cast\<close> when its type also has one
  (the type assertion \<open>d.getter.(caster)\<close>), which returns or panics.
\<close>

record Decoder =
  getter :: "string \<Rightarrow> any"
  caster :: "(any \<Rightarrow> gtype \<Rightarrow> (any \<times> goerror option) outcome) option"
  key :: string

text \<open>One pass of the loop body: the loop goes on with the field's value, or \<open>Decode\<close> ends.\<close>

datatype iteration = Continue gdata | Stop "goerror option outcome"

definition decode_field :: "Decoder \<Rightarrow> gtype \<Rightarrow> StructField \<Rightarrow> gdata \<Rightarrow> iteration" where
  "decode_field d rt field val =
     (if \<not> IsExported field then Continue val
      else case Lookup (Tag field) (key d) of
        None \<Rightarrow> Continue val
      | Some tag \<Rightarrow>
          (case getter d tag of
             None \<Rightarrow> Continue val
           | Some (tt, tv) \<Rightarrow>
               if IsZero tv then Continue val
               else if \<not> AssignableTo tt (Type field) then
                 (case caster d of
                    Some c \<Rightarrow>
                      (case c (Some (tt, tv)) (Type field) of
                         Panic \<Rightarrow> Stop Panic
                       | Returned (casted, Some err) \<Rightarrow> Stop (Returned (wrapCastErr (Some err)))
                       | Returned (casted, None) \<Rightarrow>
                           (case assignTo (Type field) casted of
                              None \<Rightarrow> Stop Panic
                            | Some x \<Rightarrow> Continue x))
                  | None \<Rightarrow>
                      Stop (Returned (Some (UnmarshalTypeError (TypeName tt) (Type field)
                                              (TypeName rt) (Name field)))))
               else Continue tv))"

text \<open>
  The loop over the fields in declaration order, each with its current value. The result
  is what \<open>Decode\<close> returns and the values of all fields when it ends.
\<close>

fun decode_fields ::
  "Decoder \<Rightarrow> gtype \<Rightarrow> (StructField \<times> gdata) list \<Rightarrow> goerror option outcome \<times> gdata list" where
  "decode_fields d rt [] = (Returned None, [])"
| "decode_fields d rt ((field, val) # rest) =
     (case decode_field d rt field val of
        Stop r \<Rightarrow> (r, val # map snd rest)
      | Continue x \<Rightarrow>
          (case decode_fields d rt rest of (r, vals) \<Rightarrow> (r, x # vals)))"

text \<open>\<open>Value.IsNil()\<close>, called on a value of pointer kind.\<close>

fun IsNil :: "gdata \<Rightarrow> bool" where
  "IsNil (DPointer p) = (p = None)"
| "IsNil (DSlice xs) = (xs = None)"
| "IsNil d = False"

text \<open>
  \<open>Decode\<close> returns its error and the argument as the call leaves it: the pointer with
  the struct it points to, whose fields the loop has set. (The last case is for data that
  is no value of its type, which no Go program can pass.)
\<close>

definition Decode :: "Decoder \<Rightarrow> any \<Rightarrow> goerror option outcome \<times> any" where
  "Decode d v =
     (case v of
        None \<Rightarrow> (Returned (Some (InvalidUnmarshalError None)), v)
      | Some (rt, rv) \<Rightarrow>
          if TypeKind rt \<noteq> KPointer \<or> IsNil rv then
            (Returned (Some (InvalidUnmarshalError (Some rt))), v)
          else if TypeKind (Elem rt) \<noteq> KStruct then
            (Returned (Some (InvalidUnmarshalError (Some (Elem rt)))), v)
          else
            (case rv of
               DPointer (Some (DStruct vals)) \<Rightarrow>
                 (case decode_fields d (Elem rt) (zip (Fields (Elem rt)) vals) of
                    (r, vals') \<Rightarrow> (r, Some (rt, DPointer (Some (DStruct vals')))))
             | _ \<Rightarrow> (Returned None, v)))"

text \<open>
  \<open>New\<close>. The getter is given by its method \<open>Get\<close> and, when its type has one, its
  method \<open>Cast\<close> (for the query, form and directory sources of \<open>scanner.go\<close> that is
  \<open>DefaultCast\<close>).
\<close>

definition New :: "(string \<Rightarrow> any) \<Rightarrow> (any \<Rightarrow> gtype \<Rightarrow> (any \<times> goerror option) outcome) option
    \<Rightarrow> string \<Rightarrow> Decoder" where
  "New g c k = \<lparr>getter = g, caster = c, key = k\<rparr>"

section \<open>Records and sources to run the code on\<close>

text \<open>
  A pointer to a struct of the defined type \<open>pkg.name\<close>, given as its fields in
  declaration order, each with its current value.
\<close>

definition struct_ptr :: "string \<Rightarrow> string \<Rightarrow> (StructField \<times> gdata) list \<Rightarrow> any" where
  "struct_ptr pkg name fvs =
     Some (PointerTo (Named pkg name (StructOf (map fst fvs))),
           DPointer (Some (DStruct (map snd fvs))))"

text \<open>The values of the fields of the struct a target points to.\<close>

definition field_values :: "any \<Rightarrow> gdata list" where
  "field_values v =
     (case v of
        Some (rt, DPointer (Some (DStruct vals))) \<Rightarrow> vals
      | _ \<Rightarrow> [])"

text \<open>
  The type \<open>Role\<close> of the tests, with its method
  \<open>func (r *Role) UnmarshalString(s string) error { r.Name = s; return nil }\<close>,
  and a library in which it is the only type with that method. The float functions of
  this library are stand-ins: they reject every text and print nothing.
\<close>

definition Role :: gtype where
  "Role = Named ''scanner_test'' ''Role''
            (StructOf [StructField ''Name'' [] (Predeclared TString) []])"

definition Role_UnmarshalString :: "gdata \<Rightarrow> string \<Rightarrow> gdata \<times> goerror option" where
  "Role_UnmarshalString r s = (DStruct [DString s], None)"

definition test_lib :: stdlib where
  "test_lib =
     \<lparr>ParseFloat = (\<lambda>s bitSize. (0, Some (NumError ''ParseFloat'' s ErrSyntax))),
      ToFloat32 = (\<lambda>w. 0),
      FormatFloat32 = (\<lambda>w. []),
      FormatFloat64 = (\<lambda>w. []),
      Unmarshaler = (\<lambda>t. if t = Role then Some Role_UnmarshalString else None)\<rparr>"

text \<open>An exported field with one tag, and a source that is an association list.\<close>

definition tagged :: "string \<Rightarrow> gtype \<Rightarrow> string \<Rightarrow> string \<Rightarrow> StructField" where
  "tagged n t k v = StructField n [] t [(k, v)]"

definition values_getter :: "(string \<times> string) list \<Rightarrow> string \<Rightarrow> any" where
  "values_getter vs k = boxed_string (case map_of vs k of None \<Rightarrow> [] | Some v \<Rightarrow> v)"

text \<open>
  The type of the record \<open>struct_ptr\<close> points to; whether the pass over one field lets the
  loop go on; and the value of the field after its pass.
\<close>

definition record_type :: "string \<Rightarrow> string \<Rightarrow> (StructField \<times> gdata) list \<Rightarrow> gtype" where
  "record_type pkg name fvs = Named pkg name (StructOf (map fst fvs))"

definition passes :: "Decoder \<Rightarrow> gtype \<Rightarrow> StructField \<times> gdata \<Rightarrow> bool" where
  "passes d rt fv =
     (case decode_field d rt (fst fv) (snd fv) of Continue x \<Rightarrow> True | Stop r \<Rightarrow> False)"

definition value_after :: "Decoder \<Rightarrow> gtype \<Rightarrow> StructField \<times> gdata \<Rightarrow> gdata" where
  "value_after d rt fv =
     (case decode_field d rt (fst fv) (snd fv) of Continue x \<Rightarrow> x | Stop r \<Rightarrow> snd fv)"

section \<open>What a decimal text denotes\<close>

text \<open>
  The number a text stands for, said without the parsers: an unsigned literal is one or
  more decimal digits, a signed literal is an unsigned one after at most one sign. The
  value is read digit by digit from the left.
\<close>

definition decimal_value_from :: "nat \<Rightarrow> string \<Rightarrow> nat" where
  "decimal_value_from n s = foldl (\<lambda>n c. n * 10 + digit_val c) n s"

definition unsigned_literal :: "string \<Rightarrow> nat option" where
  "unsigned_literal s =
     (if s \<noteq> [] \<and> list_all is_digit s then Some (decimal_value_from 0 s) else None)"

definition signed_literal :: "string \<Rightarrow> int option" where
  "signed_literal s =
     (case s of
        [] \<Rightarrow> None
      | c # cs \<Rightarrow>
          if c = CHR ''-'' then map_option (\<lambda>n. - int n) (unsigned_literal cs)
          else if c = CHR ''+'' then map_option int (unsigned_literal cs)
          else map_option int (unsigned_literal s))"

text \<open>The sign and the digits of a text, as \<open>ParseInt\<close> takes them apart.\<close>

definition is_neg :: "string \<Rightarrow> bool" where
  "is_neg s = (hd s = CHR ''-'')"

definition unsigned_part :: "string \<Rightarrow> string" where
  "unsigned_part s = (if hd s = CHR ''+'' \<or> hd s = CHR ''-'' then tl s else s)"

text \<open>The integer types, by signedness, and the float types.\<close>

definition signed_types :: "Basic list" where
  "signed_types = [TInt, TInt8, TInt16, TInt32, TInt64]"

definition unsigned_types :: "Basic list" where
  "unsigned_types = [TUint, TUint8, TUint16, TUint32, TUint64]"

definition float_types :: "Basic list" where
  "float_types = [TFloat32, TFloat64]"



section \<open>Facts about the loop of Decode\<close>

lemmas eval_defs = DefaultCast.simps parse_def ParseInt_def ParseUint_def ParseBool_def
  to_int64_def neg_int64_def
  is_digit_def digit_val_def maxVal_def uint_cutoff_def maxUint64_def conv_int_def conv_uint_def
  boxed_string_def boxed_bool_def DefaultSeperator_def assignTo_def AssignableTo_def
  directlyAssignable_def numeric_types_def

lemmas fixture_defs = New_def values_getter_def tagged_def test_lib_def Role_def
  Role_UnmarshalString_def

lemma decode_fields_length: "length (snd (decode_fields d rt fvs)) = length fvs"
  by (induction fvs) (auto split: iteration.splits prod.splits)

lemma decode_fields_append:
  "list_all (passes d rt) pre \<Longrightarrow>
   decode_fields d rt (pre @ rest) =
     (fst (decode_fields d rt rest), map (value_after d rt) pre @ snd (decode_fields d rt rest))"
  by (induction pre) (auto simp: passes_def value_after_def split: iteration.splits prod.splits)

lemma decode_field_TypeName:
  "TypeName rt = TypeName rt' \<Longrightarrow> decode_field d rt f v = decode_field d rt' f v"
  by (simp add: decode_field_def cong: option.case_cong if_cong)

lemma decode_fields_TypeName:
  "TypeName rt = TypeName rt' \<Longrightarrow> decode_fields d rt fvs = decode_fields d rt' fvs"
  by (induction fvs) (auto simp: decode_field_TypeName [of rt rt'] split: iteration.splits)

lemma Decode_struct_ptr:
  "Decode d (struct_ptr pkg name fvs) =
     (fst (decode_fields d (record_type pkg name fvs) fvs),
      struct_ptr pkg name
        (zip (map fst fvs) (snd (decode_fields d (record_type pkg name fvs) fvs))))"
proof -
  have "length (snd (decode_fields d (record_type pkg name fvs) fvs)) = length (map fst fvs)"
    by (simp add: decode_fields_length)
  then show ?thesis
    by (simp add: Decode_def struct_ptr_def record_type_def zip_map_fst_snd split: prod.splits)
qed

lemma field_values_Decode:
  "field_values (snd (Decode d (struct_ptr pkg name fvs))) =
     snd (decode_fields d (record_type pkg name fvs) fvs)"
  by (subst Decode_struct_ptr) (simp add: field_values_def struct_ptr_def decode_fields_length)

lemma decode_field_cast_error:
  assumes "IsExported f" "Lookup (Tag f) (key d) = Some tag" "getter d tag = Some (tt, tv)"
    "\<not> IsZero tv" "\<not> AssignableTo tt (Type f)" "caster d = Some c"
    "c (Some (tt, tv)) (Type f) = Returned (casted, Some err)"
  shows "decode_field d rt f v = Stop (Returned (Some (CastError err)))"
  using assms by (simp add: decode_field_def wrapCastErr_def)

lemma decode_field_assigned:
  assumes "IsExported f" "Lookup (Tag f) (key d) = Some tag" "getter d tag = Some (tt, tv)"
    "\<not> IsZero tv" "AssignableTo tt (Type f)"
  shows "decode_field d rt f v = Continue tv"
  using assms by (simp add: decode_field_def)

lemma decode_field_coerced:
  assumes "IsExported f" "Lookup (Tag f) (key d) = Some tag" "getter d tag = Some (tt, tv)"
    "\<not> IsZero tv" "\<not> AssignableTo tt (Type f)" "caster d = Some c"
    "c (Some (tt, tv)) (Type f) = Returned (Some (ct, cv), None)"
  shows "decode_field d rt f v = (if AssignableTo ct (Type f) then Continue cv else Stop Panic)"
  using assms by (simp add: decode_field_def assignTo_def)

lemma decode_field_absent:
  assumes "Lookup (Tag f) (key d) = Some tag"
    "getter d tag = None \<or> (\<exists>tt tv. getter d tag = Some (tt, tv) \<and> IsZero tv)"
  shows "decode_field d rt f v = Continue v"
  using assms by (auto simp add: decode_field_def)

lemma decode_fields_skip:
  assumes "decode_field d rt f v = Continue v"
  shows "decode_fields d rt (pre @ (f, v) # post) =
           (fst (decode_fields d rt (pre @ post)),
            take (length pre) (snd (decode_fields d rt (pre @ post))) @ v #
            drop (length pre) (snd (decode_fields d rt (pre @ post))))"
  using assms by (induction pre) (auto split: iteration.splits prod.splits)

text \<open>Every target that is not a non-nil pointer to a struct is refused and left as it is.\<close>

lemma decode_invalid_target:
  assumes "v = None \<or> (\<exists>rt rv. v = Some (rt, rv) \<and>
             (TypeKind rt \<noteq> KPointer \<or> IsNil rv \<or> TypeKind (Elem rt) \<noteq> KStruct))"
  shows "\<exists>t. Decode d v = (Returned (Some (InvalidUnmarshalError t)), v)"
  using assms by (auto simp: Decode_def)

section \<open>Facts about ParseUint and ParseInt\<close>

lemma decimal_value_from_Nil [simp]: "decimal_value_from n [] = n"
  by (simp add: decimal_value_from_def)

lemma decimal_value_from_Cons [simp]:
  "decimal_value_from n (c # cs) = decimal_value_from (n * 10 + digit_val c) cs"
  by (simp add: decimal_value_from_def)

lemma decimal_value_from_ge: "n \<le> decimal_value_from n s"
proof (induction s arbitrary: n)
  case Nil
  show ?case by simp
next
  case (Cons c cs)
  have "n \<le> n * 10 + digit_val c" by simp
  also have "\<dots> \<le> decimal_value_from (n * 10 + digit_val c) cs" by (rule Cons.IH)
  finally show ?case by simp
qed

lemma maxVal_eq: "bitSize \<le> 64 \<Longrightarrow> maxVal bitSize = 2 ^ bitSize - 1"
proof (cases "bitSize = 64")
  case True
  then show ?thesis by (simp add: maxVal_def)
next
  case False
  assume "bitSize \<le> 64"
  with False have lt: "bitSize < 64" by simp
  then have "(2::nat) ^ bitSize < 2 ^ 64" by (intro power_strict_increasing) simp_all
  moreover have "(2::nat) ^ bitSize \<ge> 1" by simp
  ultimately show ?thesis
    by (simp add: maxVal_def mod_if)
qed

lemma maxVal_le: "bitSize \<le> 64 \<Longrightarrow> maxVal bitSize \<le> maxUint64"
proof -
  assume b: "bitSize \<le> 64"
  then have "(2::nat) ^ bitSize \<le> 2 ^ 64" by (intro power_increasing) simp_all
  then show ?thesis using b by (simp add: maxVal_eq maxUint64_def)
qed

lemma digit_val_le: "is_digit c \<Longrightarrow> digit_val c \<le> 9"
  unfolding is_digit_def digit_val_def by arith

lemma ParseUint_loop_digits:
  assumes "bitSize \<le> 64" "list_all is_digit s" "n \<le> maxVal bitSize"
  shows "ParseUint_loop bitSize s n =
           (if decimal_value_from n s \<le> maxVal bitSize then (decimal_value_from n s, None)
            else (maxVal bitSize, Some ErrRange))"
  using assms(2,3)
proof (induction s arbitrary: n)
  case Nil
  then show ?case by simp
next
  case (Cons c cs)
  let ?d = "digit_val c"
  let ?v = "decimal_value_from (n * 10 + ?d) cs"
  have dig: "is_digit c" and rest: "list_all is_digit cs" using Cons.prems(1) by simp_all
  have d9: "?d \<le> 9" using dig by (rule digit_val_le)
  have vge: "n * 10 + ?d \<le> ?v" by (rule decimal_value_from_ge)
  have mle: "maxVal bitSize \<le> maxUint64" using assms(1) by (rule maxVal_le)
  show ?case
  proof (cases "n \<ge> uint_cutoff")
    case True
    then have "n * 10 > maxUint64" by (simp add: uint_cutoff_def maxUint64_def)
    with vge mle have "?v > maxVal bitSize" by linarith
    with True dig show ?thesis by simp
  next
    case False
    then have m: "n * 10 \<le> maxUint64" by (simp add: uint_cutoff_def maxUint64_def)
    show ?thesis
    proof (cases "n * 10 + ?d < 2 ^ 64")
      case wrap: False
      then have "(n * 10 + ?d) mod 2 ^ 64 = n * 10 + ?d - 2 ^ 64"
        using m d9 by (simp add: maxUint64_def mod_if)
      then have lt: "(n * 10 + ?d) mod 2 ^ 64 < n * 10"
        using wrap d9 by simp
      have "?v > maxVal bitSize" using vge wrap mle by (simp add: maxUint64_def)
      with False dig lt show ?thesis by (simp add: Let_def)
    next
      case nowrap: True
      then have n1: "(n * 10 + ?d) mod 2 ^ 64 = n * 10 + ?d" by simp
      show ?thesis
      proof (cases "n * 10 + ?d > maxVal bitSize")
        case True
        with vge have "?v > maxVal bitSize" by linarith
        with False dig n1 True show ?thesis by (simp add: Let_def)
      next
        case le: False
        then have "n * 10 + ?d \<le> maxVal bitSize" by simp
        from Cons.IH [OF rest this] False dig n1 le show ?thesis by (simp add: Let_def)
      qed
    qed
  qed
qed




lemma ParseUint_in_range:
  assumes "bitSize \<le> 64" "unsigned_literal s = Some n" "n \<le> maxVal bitSize"
  shows "ParseUint s bitSize = (n, None)"
proof -
  from assms(2) have s: "s \<noteq> []" "list_all is_digit s" "decimal_value_from 0 s = n"
    by (auto simp: unsigned_literal_def split: if_splits)
  from ParseUint_loop_digits [OF assms(1) s(2), of 0] s(3) assms(3) s(1)
  show ?thesis by (simp add: ParseUint_def)
qed



lemma signed_literal_eq:
  "s \<noteq> [] \<Longrightarrow>
   signed_literal s =
     map_option (\<lambda>n. if is_neg s then - int n else int n) (unsigned_literal (unsigned_part s))"
  by (cases s) (auto simp: signed_literal_def is_neg_def unsigned_part_def)

lemma ParseInt_unfold:
  "s \<noteq> [] \<Longrightarrow>
   ParseInt s bitSize =
     (let r = ParseUint (unsigned_part s) bitSize; un = fst r; cutoff = (2::nat) ^ (bitSize - 1)
      in if (case snd r of Some (NumError f num ErrSyntax) \<Rightarrow> True | _ \<Rightarrow> False)
         then (0, Some (NumError ''ParseInt'' s ErrSyntax))
         else if \<not> is_neg s \<and> un \<ge> cutoff then (int cutoff - 1, Some (NumError ''ParseInt'' s ErrRange))
         else if is_neg s \<and> un > cutoff then (- int cutoff, Some (NumError ''ParseInt'' s ErrRange))
         else (if is_neg s then neg_int64 (to_int64 un) else to_int64 un, None))"
  by (simp add: ParseInt_def is_neg_def unsigned_part_def Let_def)

lemma int64_of_parsed:
  assumes "n \<le> 2 ^ 63" "\<not> neg \<Longrightarrow> n < 2 ^ 63"
  shows "(if neg then neg_int64 (to_int64 n) else to_int64 n) = (if neg then - int n else int n)"
proof (cases "n = 2 ^ 63")
  case True
  with assms(2) have neg by auto
  with True show ?thesis by (simp add: neg_int64_def to_int64_def)
next
  case False
  with assms(1) have lt: "n < 2 ^ 63" by simp
  then have "to_int64 n = int n" by (simp add: to_int64_def)
  moreover have "int n \<noteq> - (2 ^ 63)" by simp
  ultimately show ?thesis by (simp add: neg_int64_def)
qed

lemma power_half:
  assumes "2 \<le> b"
  shows "(2::nat) ^ b = 2 * 2 ^ (b - 1)" "(2::nat) \<le> 2 ^ (b - 1)"
proof -
  from assms obtain k where b: "b = Suc (Suc k)" by (metis Suc_le_D numeral_2_eq_2 Suc_le_mono)
  show "(2::nat) ^ b = 2 * 2 ^ (b - 1)" by (simp add: b)
  show "(2::nat) \<le> 2 ^ (b - 1)" by (simp add: b)
qed

lemma ParseInt_in_range:
  assumes b: "2 \<le> b" "b \<le> 64"
    and lit: "signed_literal s = Some i"
    and range: "- (2 ^ (b - 1)) \<le> i" "i < 2 ^ (b - 1)"
  shows "ParseInt s b = (i, None)"
proof -
  define c where "c = (2::nat) ^ (b - 1)"
  have ic: "(2::int) ^ (b - 1) = int c" by (simp add: c_def)
  have s: "s \<noteq> []" using lit by (auto simp: signed_literal_def)
  from lit obtain n where n: "unsigned_literal (unsigned_part s) = Some n"
    and i: "i = (if is_neg s then - int n else int n)"
    by (auto simp: signed_literal_eq [OF s])
  have mv: "maxVal b = 2 * c - 1"
    using b power_half(1) [OF b(1)] by (simp add: maxVal_eq c_def)
  have c2: "2 \<le> c" unfolding c_def using b(1) by (rule power_half(2))
  have c1: "(2::nat) ^ (b - Suc 0) = c" by (simp add: c_def)
  have c63: "c \<le> 2 ^ 63"
    unfolding c_def using b(2) by (intro power_increasing) simp_all
  have nle: "n \<le> c" "\<not> is_neg s \<Longrightarrow> n < c"
    using range i unfolding ic by (auto split: if_splits)
  then have "n \<le> maxVal b" using mv c2 by simp
  then have pu: "ParseUint (unsigned_part s) b = (n, None)"
    using b(2) n by (intro ParseUint_in_range)
  have "(if is_neg s then neg_int64 (to_int64 n) else to_int64 n) = i"
    unfolding i using nle c63 by (intro int64_of_parsed) auto
  then show ?thesis
    using nle by (auto simp add: ParseInt_unfold [OF s] pu Let_def c1)
qed




section \<open>Facts about DefaultCast\<close>

lemma numeric_types_not_string: "ft \<in> set numeric_types \<Longrightarrow> ft \<noteq> Predeclared TString"
  by (auto simp: numeric_types_def)

lemma integer_to_text:
  assumes "ft \<in> set numeric_types" "TypeKind to = KString"
  shows "DefaultCast E (Some (ft, DInt i)) to = Returned (boxed_string (FormatInt i), None)"
  using assms by (subst DefaultCast.simps) (simp add: numeric_types_not_string Sprintf_d_def)

text \<open>Text to number, and the digits that \<open>%d\<close> prints read back.\<close>

lemma Bits_signed: "T \<in> set signed_types \<Longrightarrow> 2 \<le> Bits T \<and> Bits T \<le> 64"
  by (auto simp: signed_types_def)

lemma Bits_unsigned: "T \<in> set unsigned_types \<Longrightarrow> Bits T \<le> 64"
  by (auto simp: unsigned_types_def)

lemma DefaultCast_text_numeric:
  assumes "T \<in> set (signed_types @ unsigned_types @ float_types)" "TypeKind to = kind_of_basic T"
  shows "DefaultCast E (boxed_string s) to = Returned (parse E T s)"
  using assms
  by (subst DefaultCast.simps)
     (auto simp: boxed_string_def signed_types_def unsigned_types_def float_types_def)

lemma parse_signed:
  assumes "T \<in> set signed_types"
  shows "parse E T s =
           (case ParseInt s (Bits T) of
              (i, Some err) \<Rightarrow> (Some (Predeclared T, DInt 0), Some err)
            | (i, None) \<Rightarrow> (Some (Predeclared T, conv_int T i), None))"
  using assms by (auto simp: parse_def Let_def signed_types_def)

lemma parse_unsigned:
  assumes "T \<in> set unsigned_types"
  shows "parse E T s =
           (case ParseUint s (Bits T) of
              (i, Some err) \<Rightarrow> (Some (Predeclared T, DInt 0), Some err)
            | (i, None) \<Rightarrow> (Some (Predeclared T, conv_uint T i), None))"
  using assms by (auto simp: parse_def Let_def unsigned_types_def)


lemma conv_int_in_range:
  assumes "2 \<le> Bits T" "- (2 ^ (Bits T - 1)) \<le> i" "i < 2 ^ (Bits T - 1)"
  shows "conv_int T i = DInt i"
proof -
  define c where "c = (2::int) ^ (Bits T - 1)"
  from assms(1) obtain k where k: "Bits T = Suc k" by (cases "Bits T") simp_all
  have p: "(2::int) ^ Bits T = 2 * c" by (simp add: c_def k)
  have "0 \<le> i + c" "i + c < 2 * c" using assms(2,3) by (simp_all add: c_def)
  then have "(i + c) mod (2 * c) = i + c" by simp
  then have "(i + c) mod (2 * c) - c = i" by simp
  then show ?thesis unfolding conv_int_def p unfolding c_def [symmetric] by simp
qed

lemma conv_uint_in_range:
  assumes "n < 2 ^ Bits T"
  shows "conv_uint T n = DInt (int n)"
  using assms by (simp add: conv_uint_def)

lemma is_digit_digit_char: "d < 10 \<Longrightarrow> is_digit (digit_char d)"
  by (simp add: is_digit_def digit_char_def)

lemma digit_val_digit_char: "d < 10 \<Longrightarrow> digit_val (digit_char d) = d"
  by (simp add: digit_val_def digit_char_def)

lemma digits_not_Nil: "digits n \<noteq> []"
  by (subst digits.simps) simp

lemma digits_all_digits: "list_all is_digit (digits n)"
proof (induction n rule: digits.induct)
  case (1 n)
  show ?case
  proof (cases "n < 10")
    case True
    then show ?thesis by (subst digits.simps) (simp add: is_digit_digit_char)
  next
    case False
    with 1 have "list_all is_digit (digits (n div 10))" by simp
    with False show ?thesis by (subst digits.simps) (simp add: is_digit_digit_char)
  qed
qed

lemma decimal_value_from_snoc:
  "decimal_value_from n (s @ [c]) = decimal_value_from n s * 10 + digit_val c"
  by (simp add: decimal_value_from_def)

lemma decimal_value_digits: "decimal_value_from 0 (digits n) = n"
proof (induction n rule: digits.induct)
  case (1 n)
  show ?case
  proof (cases "n < 10")
    case True
    then show ?thesis by (subst digits.simps) (simp add: digit_val_digit_char)
  next
    case False
    with 1 have "decimal_value_from 0 (digits (n div 10)) = n div 10" by simp
    with False show ?thesis
      by (subst digits.simps) (simp add: decimal_value_from_snoc digit_val_digit_char)
  qed
qed

lemma unsigned_literal_digits: "unsigned_literal (digits n) = Some n"
  by (simp add: unsigned_literal_def digits_not_Nil digits_all_digits decimal_value_digits)

lemma hd_digits_is_digit: "is_digit (hd (digits n))"
  using digits_all_digits [of n] digits_not_Nil [of n] by (cases "digits n") simp_all

lemma sign_not_digit: "\<not> is_digit (CHR ''-'')" "\<not> is_digit (CHR ''+'')"
  by (simp_all add: is_digit_def)

lemma signed_literal_FormatInt: "signed_literal (FormatInt i) = Some i"
proof (cases "i < 0")
  case True
  then show ?thesis
    by (simp add: FormatInt_def signed_literal_def unsigned_literal_digits)
next
  case False
  obtain c cs where d: "digits (nat i) = c # cs"
    using digits_not_Nil [of "nat i"] by (cases "digits (nat i)") auto
  have "is_digit c" using hd_digits_is_digit [of "nat i"] d by simp
  then have "c \<noteq> CHR ''-''" "c \<noteq> CHR ''+''" using sign_not_digit by auto
  moreover have "unsigned_literal (c # cs) = Some (nat i)"
    using unsigned_literal_digits [of "nat i"] d by simp
  ultimately show ?thesis using False d
    by (simp add: FormatInt_def signed_literal_def)
qed

lemma unsigned_literal_FormatInt: "0 \<le> i \<Longrightarrow> unsigned_literal (FormatInt i) = Some (nat i)"
  by (simp add: FormatInt_def unsigned_literal_digits)


lemma digit_char_simps:
  "digit_char 0 = CHR ''0''" "digit_char 1 = CHR ''1''" "digit_char 2 = CHR ''2''"
  "digit_char 3 = CHR ''3''" "digit_char 4 = CHR ''4''" "digit_char 5 = CHR ''5''"
  "digit_char 6 = CHR ''6''" "digit_char 7 = CHR ''7''" "digit_char 8 = CHR ''8''"
  "digit_char 9 = CHR ''9''" "digit_char (Suc 0) = CHR ''1''"
  by (simp_all add: digit_char_def char_of_eq_iff)










section \<open>The claims\<close>

text \<open>
  Claim C1. Take a record and a source that has the method \<open>Cast\<close>. Let field \<open>f\<close> be
  reached by the loop (the pass over each field declared before it lets the loop go on),
  and let its raw value be present, not zero and not assignable, so that \<open>Cast\<close> is called,
  and let \<open>Cast\<close> return the error \<open>err\<close>. Then \<open>Decode\<close> returns \<open>CastError err\<close>; the
  target is still the same record; field \<open>f\<close> and every field declared after it keep the
  value they had before the call; and every field declared before \<open>f\<close> whose raw value was
  present and assignable holds that raw value, and every one whose raw value was coerced
  holds the value \<open>Cast\<close> returned for it.
\<close>

theorem decode_cast_failure_aborts:
  assumes before: "list_all (passes d (record_type pkg name (pre @ (f, v) # post))) pre"
    and f: "IsExported f" "Lookup (Tag f) (key d) = Some tag" "getter d tag = Some (tt, tv)"
      "\<not> IsZero tv" "\<not> AssignableTo tt (Type f)"
    and c: "caster d = Some c" "c (Some (tt, tv)) (Type f) = Returned (casted, Some err)"
  shows
    "(let R = Decode d (struct_ptr pkg name (pre @ (f, v) # post)) in
      fst R = Returned (Some (CastError err))
      \<and> snd R = struct_ptr pkg name (zip (map fst (pre @ (f, v) # post)) (field_values (snd R)))
      \<and> length (field_values (snd R)) = length (pre @ (f, v) # post)
      \<and> drop (length pre) (field_values (snd R)) = v # map snd post
      \<and> (\<forall>i<length pre. \<forall>tag' tt' tv'.
            IsExported (fst (pre ! i)) \<and> Lookup (Tag (fst (pre ! i))) (key d) = Some tag'
            \<and> getter d tag' = Some (tt', tv') \<and> \<not> IsZero tv'
            \<and> AssignableTo tt' (Type (fst (pre ! i)))
            \<longrightarrow> field_values (snd R) ! i = tv')
      \<and> (\<forall>i<length pre. \<forall>tag' tt' tv' c' ct cv.
            IsExported (fst (pre ! i)) \<and> Lookup (Tag (fst (pre ! i))) (key d) = Some tag'
            \<and> getter d tag' = Some (tt', tv') \<and> \<not> IsZero tv'
            \<and> \<not> AssignableTo tt' (Type (fst (pre ! i)))
            \<and> c' (Some (tt', tv')) (Type (fst (pre ! i))) = Returned (Some (ct, cv), None)
            \<and> caster d = Some c'
            \<longrightarrow> field_values (snd R) ! i = cv))"
proof -
  let ?fvs = "pre @ (f, v) # post"
  let ?rt = "record_type pkg name ?fvs"
  let ?vals = "map (value_after d ?rt) pre @ v # map snd post"
  have stop: "decode_field d ?rt f v = Stop (Returned (Some (CastError err)))"
    using f c by (rule decode_field_cast_error)
  have loop: "decode_fields d ?rt ?fvs = (Returned (Some (CastError err)), ?vals)"
    using decode_fields_append [OF before, of "(f, v) # post"] stop by simp
  have D: "Decode d (struct_ptr pkg name ?fvs) =
             (Returned (Some (CastError err)), struct_ptr pkg name (zip (map fst ?fvs) ?vals))"
    by (subst Decode_struct_ptr) (simp only: loop fst_conv snd_conv)
  have fv: "field_values (snd (Decode d (struct_ptr pkg name ?fvs))) = ?vals"
    by (subst field_values_Decode) (simp only: loop snd_conv)
  have assigned: "?vals ! i = tv'"
    if "i < length pre" "IsExported (fst (pre ! i))"
      "Lookup (Tag (fst (pre ! i))) (key d) = Some tag'" "getter d tag' = Some (tt', tv')"
      "\<not> IsZero tv'" "AssignableTo tt' (Type (fst (pre ! i)))" for i tag' tt' tv'
  proof -
    have "decode_field d ?rt (fst (pre ! i)) (snd (pre ! i)) = Continue tv'"
      using that(2-6) by (rule decode_field_assigned)
    then show ?thesis using that(1) by (simp add: nth_append value_after_def)
  qed
  have coerced: "?vals ! i = cv"
    if "i < length pre" "IsExported (fst (pre ! i))"
      "Lookup (Tag (fst (pre ! i))) (key d) = Some tag'" "getter d tag' = Some (tt', tv')"
      "\<not> IsZero tv'" "\<not> AssignableTo tt' (Type (fst (pre ! i)))"
      "caster d = Some c'"
      "c' (Some (tt', tv')) (Type (fst (pre ! i))) = Returned (Some (ct, cv), None)"
    for i tag' tt' tv' c' ct cv
  proof -
    have step: "decode_field d ?rt (fst (pre ! i)) (snd (pre ! i)) =
            (if AssignableTo ct (Type (fst (pre ! i))) then Continue cv else Stop Panic)"
      using that(2-8) by (rule decode_field_coerced)
    have "passes d ?rt (pre ! i)"
      using before that(1) by (simp add: list_all_length)
    with step have "decode_field d ?rt (fst (pre ! i)) (snd (pre ! i)) = Continue cv"
      by (simp add: passes_def split: if_splits)
    then show ?thesis using that(1) by (simp add: nth_append value_after_def)
  qed
  show ?thesis
    unfolding Let_def fv
    using assigned coerced by (simp add: D)
qed

text \<open>
  The record of the specification's example, fields \<open>A\<close> (valid), \<open>B\<close> (its text is no
  number) and \<open>C\<close> (valid), decoded from a query source with the default coercion.
\<close>

theorem decode_cast_failure_aborts_witness:
  "(let d = New (values_getter [(''a'', ''2''), (''b'', ''1x''), (''c'', ''true'')])
                (Some (DefaultCast test_lib)) ''query'';
        A = tagged ''A'' (Predeclared TUint32) ''query'' ''a'';
        B = tagged ''B'' (Predeclared TInt8) ''query'' ''b'';
        C = tagged ''C'' (Predeclared TBool) ''query'' ''c'';
        R = Decode d (struct_ptr ''main'' ''Params'' [(A, DInt 0), (B, DInt 0), (C, DBool False)])
    in fst R = Returned (Some (CastError (NumError ''ParseInt'' ''1x'' ErrSyntax)))
       \<and> field_values (snd R) = [DInt 2, DInt 0, DBool False])"
proof -
  let ?d = "New (values_getter [(''a'', ''2''), (''b'', ''1x''), (''c'', ''true'')])
                (Some (DefaultCast test_lib)) ''query''"
  let ?A = "tagged ''A'' (Predeclared TUint32) ''query'' ''a''"
  let ?B = "tagged ''B'' (Predeclared TInt8) ''query'' ''b''"
  let ?C = "tagged ''C'' (Predeclared TBool) ''query'' ''c''"
  have A: "decode_field ?d rt ?A (DInt 0) = Continue (DInt 2)" for rt
    by (simp add: decode_field_def IsExported_def Lookup_def fixture_defs eval_defs)
  have before: "list_all (passes ?d (record_type ''main'' ''Params''
                   ([(?A, DInt 0)] @ (?B, DInt 0) # [(?C, DBool False)]))) [(?A, DInt 0)]"
    by (simp add: passes_def A)
  have f: "IsExported ?B" "Lookup (Tag ?B) (key ?d) = Some ''b''"
    "getter ?d ''b'' = Some (Predeclared TString, DString ''1x'')"
    "\<not> IsZero (DString ''1x'')" "\<not> AssignableTo (Predeclared TString) (Type ?B)"
    by (simp_all add: IsExported_def Lookup_def fixture_defs eval_defs)
  have c: "caster ?d = Some (DefaultCast test_lib)"
    "DefaultCast test_lib (Some (Predeclared TString, DString ''1x'')) (Type ?B) =
       Returned (Some (Predeclared TInt8, DInt 0), Some (NumError ''ParseInt'' ''1x'' ErrSyntax))"
    by (simp_all add: fixture_defs eval_defs)
  have fst_A: "fst (?A, DInt 0) = ?A" by simp
  let ?T = "struct_ptr ''main'' ''Params'' [(?A, DInt 0), (?B, DInt 0), (?C, DBool False)]"
  have eval: "Decode ?d ?T
      = (Returned (Some (CastError (NumError ''ParseInt'' ''1x'' ErrSyntax))),
         struct_ptr ''main'' ''Params'' [(?A, DInt 2), (?B, DInt 0), (?C, DBool False)])"
    by (simp add: Decode_def struct_ptr_def decode_field_def IsExported_def Lookup_def
          wrapCastErr_def fixture_defs eval_defs)
  have e1: "fst (Decode ?d ?T) = Returned (Some (CastError (NumError ''ParseInt'' ''1x'' ErrSyntax)))"
    by (simp add: eval)
  have e2: "field_values (snd (Decode ?d ?T)) = [DInt 2, DInt 0, DBool False]"
    by (simp add: eval) (simp add: field_values_def struct_ptr_def)
  show ?thesis
    unfolding Let_def
    using decode_cast_failure_aborts [OF before f c] e1 e2 by blast
qed

text \<open>
  Claim C2. Take any record, any source and a field \<open>f\<close> with a tag under the decoder's
  key. If the source returns nil or a zero value for the tag, then after \<open>Decode\<close> the
  field has the value it had before; and the field has no part in the result: \<open>Decode\<close>
  returns what it returns on the record without the field, and leaves the other fields
  as it leaves them there.
\<close>

theorem decode_skips_absent:
  assumes tag: "Lookup (Tag f) (key d) = Some tag"
    and absent: "getter d tag = None \<or> (\<exists>tt tv. getter d tag = Some (tt, tv) \<and> IsZero tv)"
  shows
    "field_values (snd (Decode d (struct_ptr pkg name (pre @ (f, v) # post)))) ! length pre = v
     \<and> fst (Decode d (struct_ptr pkg name (pre @ (f, v) # post))) =
         fst (Decode d (struct_ptr pkg name (pre @ post)))
     \<and> field_values (snd (Decode d (struct_ptr pkg name (pre @ (f, v) # post)))) =
         take (length pre) (field_values (snd (Decode d (struct_ptr pkg name (pre @ post))))) @ v #
         drop (length pre) (field_values (snd (Decode d (struct_ptr pkg name (pre @ post)))))"
proof -
  let ?rt = "record_type pkg name (pre @ (f, v) # post)"
  let ?rt' = "record_type pkg name (pre @ post)"
  let ?without = "decode_fields d ?rt' (pre @ post)"
  have same: "decode_fields d ?rt fvs = decode_fields d ?rt' fvs" for fvs
    by (rule decode_fields_TypeName) (simp add: record_type_def)
  have "decode_field d ?rt' f v = Continue v"
    using tag absent by (rule decode_field_absent)
  then have "decode_fields d ?rt' (pre @ (f, v) # post) =
      (fst ?without, take (length pre) (snd ?without) @ v # drop (length pre) (snd ?without))"
    by (rule decode_fields_skip)
  then have loop: "decode_fields d ?rt (pre @ (f, v) # post) =
      (fst ?without, take (length pre) (snd ?without) @ v # drop (length pre) (snd ?without))"
    by (simp only: same)
  have len: "length (take (length pre) (snd ?without)) = length pre"
    by (simp add: decode_fields_length)
  have vals: "field_values (snd (Decode d (struct_ptr pkg name (pre @ (f, v) # post)))) =
      take (length pre) (snd ?without) @ v # drop (length pre) (snd ?without)"
    by (subst field_values_Decode) (simp only: loop snd_conv)
  have vals': "field_values (snd (Decode d (struct_ptr pkg name (pre @ post)))) = snd ?without"
    by (rule field_values_Decode)
  have res: "fst (Decode d (struct_ptr pkg name (pre @ (f, v) # post))) = fst ?without"
    by (subst Decode_struct_ptr) (simp only: loop fst_conv)
  have res': "fst (Decode d (struct_ptr pkg name (pre @ post))) = fst ?without"
    by (subst Decode_struct_ptr) simp
  have "(take (length pre) (snd ?without) @ v # drop (length pre) (snd ?without)) ! length pre = v"
    using len by (metis nth_append_length)
  then show ?thesis
    by (simp only: vals vals' res res' simp_thms)
qed

text \<open>
  A query source without a value for \<open>b\<close> (its \<open>Get\<close> returns the empty string): field
  \<open>B\<close> keeps its 7, the other fields are set.
\<close>

theorem decode_skips_absent_witness:
  "(let d = New (values_getter [(''a'', ''2''), (''c'', ''true'')])
                (Some (DefaultCast test_lib)) ''query'';
        A = tagged ''A'' (Predeclared TUint32) ''query'' ''a'';
        B = tagged ''B'' (Predeclared TInt8) ''query'' ''b'';
        C = tagged ''C'' (Predeclared TBool) ''query'' ''c'';
        R = Decode d (struct_ptr ''main'' ''Params'' [(A, DInt 0), (B, DInt 7), (C, DBool False)])
    in getter d ''b'' = Some (Predeclared TString, DString [])
       \<and> fst R = Returned None
       \<and> field_values (snd R) = [DInt 2, DInt 7, DBool True])"
proof -
  let ?d = "New (values_getter [(''a'', ''2''), (''c'', ''true'')])
                (Some (DefaultCast test_lib)) ''query''"
  let ?A = "tagged ''A'' (Predeclared TUint32) ''query'' ''a''"
  let ?B = "tagged ''B'' (Predeclared TInt8) ''query'' ''b''"
  let ?C = "tagged ''C'' (Predeclared TBool) ''query'' ''c''"
  let ?T = "struct_ptr ''main'' ''Params'' [(?A, DInt 0), (?B, DInt 7), (?C, DBool False)]"
  have tag: "Lookup (Tag ?B) (key ?d) = Some ''b''"
    by (simp add: Lookup_def fixture_defs)
  have g: "getter ?d ''b'' = Some (Predeclared TString, DString [])"
    by (simp add: fixture_defs eval_defs)
  have absent: "getter ?d ''b'' = None \<or>
      (\<exists>tt tv. getter ?d ''b'' = Some (tt, tv) \<and> IsZero tv)"
    by (simp add: g)
  have eval: "Decode ?d ?T = (Returned None,
         struct_ptr ''main'' ''Params'' [(?A, DInt 2), (?B, DInt 7), (?C, DBool True)])"
    by (simp add: Decode_def struct_ptr_def decode_field_def IsExported_def Lookup_def
          wrapCastErr_def fixture_defs eval_defs)
  have e1: "fst (Decode ?d ?T) = Returned None"
    by (simp add: eval)
  have e2: "field_values (snd (Decode ?d ?T)) = [DInt 2, DInt 7, DBool True]"
    by (simp add: eval) (simp add: field_values_def struct_ptr_def)
  show ?thesis
    unfolding Let_def
    using decode_skips_absent [OF tag absent, of "''main''" "''Params''" "[(?A, DInt 0)]" "DInt 7"
        "[(?C, DBool False)]"] g e1 e2
    by simp
qed






text \<open>
  Claim C5. The claim says that a numeric value cast to a boolean gives true exactly when
  it is not zero. The code compares the interface value \<open>from\<close> with the constant 0,
  that is with \<open>int(0)\<close>: for each of the twelve numeric types and a target of
  boolean kind, the result is false only for the \<open>int\<close> 0. The zero of every other
  numeric type gives true.
\<close>

theorem numeric_to_bool_compares_with_int_zero:
  assumes "ft \<in> set numeric_types" "TypeKind to = KBool"
  shows "DefaultCast E (Some (ft, fd)) to =
           Returned (boxed_bool (\<not> (ft = Predeclared TInt \<and> fd = DInt 0)), None)"
  using assms by (subst DefaultCast.simps) (simp add: numeric_types_not_string)

theorem numeric_to_bool_compares_with_int_zero_witness:
  "DefaultCast test_lib (Some (Predeclared TUint8, DInt 0)) (Predeclared TBool) =
     Returned (Some (Predeclared TBool, DBool True), None)
   \<and> DefaultCast test_lib (Some (Predeclared TFloat64, DFloat64 0)) (Predeclared TBool) =
     Returned (Some (Predeclared TBool, DBool True), None)
   \<and> DefaultCast test_lib (Some (Predeclared TInt, DInt 0)) (Predeclared TBool) =
     Returned (Some (Predeclared TBool, DBool False), None)"
  using numeric_to_bool_compares_with_int_zero [of "Predeclared TUint8" "Predeclared TBool" test_lib "DInt 0"]
    numeric_to_bool_compares_with_int_zero [of "Predeclared TFloat64" "Predeclared TBool" test_lib "DFloat64 0"]
    numeric_to_bool_compares_with_int_zero [of "Predeclared TInt" "Predeclared TBool" test_lib "DInt 0"]
  by (simp add: numeric_types_def boxed_bool_def)

text \<open>
  Claim C6. The claim says that the type in the error tells a pointer to a non-struct from
  a value that is no pointer. \<open>Decode\<close> replaces \<open>rt\<close> by \<open>rt.Elem()\<close> before it
  builds the error, so for a pointer to an \<open>int\<close> the error holds the type \<open>int\<close>,
  the same error as for an \<open>int\<close> itself, and its text says "non-pointer". (That every
  such target is refused and not changed is \<open>decode_invalid_target\<close>.)
\<close>

theorem decode_pointer_to_nonstruct_reports_nonpointer:
  "fst (Decode d (Some (PointerTo (Predeclared TInt), DPointer (Some (DInt n))))) =
     Returned (Some (InvalidUnmarshalError (Some (Predeclared TInt))))
   \<and> fst (Decode d (Some (Predeclared TInt, DInt n))) =
     Returned (Some (InvalidUnmarshalError (Some (Predeclared TInt))))
   \<and> InvalidUnmarshalError_Error (Some (Predeclared TInt)) =
     ''structd: Unmarshal(non-pointer int)''"
  by (simp add: Decode_def InvalidUnmarshalError_Error_def)


text \<open>The same for a decoder over an empty query source and the number 5.\<close>

theorem decode_pointer_to_nonstruct_reports_nonpointer_witness:
  "fst (Decode (New (values_getter []) (Some (DefaultCast test_lib)) ''query'')
          (Some (PointerTo (Predeclared TInt), DPointer (Some (DInt 5))))) =
     Returned (Some (InvalidUnmarshalError (Some (Predeclared TInt))))
   \<and> fst (Decode (New (values_getter []) (Some (DefaultCast test_lib)) ''query'')
          (Some (Predeclared TInt, DInt 5))) =
     Returned (Some (InvalidUnmarshalError (Some (Predeclared TInt))))
   \<and> InvalidUnmarshalError_Error (Some (Predeclared TInt)) =
     ''structd: Unmarshal(non-pointer int)''"
  by (rule decode_pointer_to_nonstruct_reports_nonpointer
        [of "New (values_getter []) (Some (DefaultCast test_lib)) ''query''" 5])

text \<open>
  Claim C7. For a text and a target type whose kind has no rule of its own (it is not
  numeric, boolean or a slice) and whose pointer has the method \<open>UnmarshalString\<close>, the
  cast calls the method on a fresh zero value of the type with the text. If the method
  returns no error, the cast returns the value as the method left it, with the target
  type; if it returns an error, the cast returns no value and an \<open>UnmarshalerError\<close>
  that holds that error, the text and the target type (whose \<open>Name\<close> is the type name).
\<close>

theorem text_to_unmarshaler:
  assumes "TypeKind to \<notin> set [KUint8, KUint16, KUint32, KUint64, KInt8, KInt16, KInt32, KInt64,
             KUint, KInt, KFloat32, KFloat64, KBool, KSlice]"
    and "Unmarshaler E to = Some u"
  shows "DefaultCast E (boxed_string s) to =
           (case u (zero to) s of
              (x, None) \<Rightarrow> Returned (Some (to, x), None)
            | (x, Some err) \<Rightarrow> Returned (None, Some (UnmarshalerError err s to)))"
  using assms
  by (subst DefaultCast.simps) (simp add: boxed_string_def split: Kind.splits option.splits prod.splits)

theorem text_to_unmarshaler_witness:
  "DefaultCast test_lib (boxed_string ''admin'') Role =
     Returned (Some (Role, DStruct [DString ''admin'']), None)
   \<and> DefaultCast (test_lib\<lparr>Unmarshaler := (\<lambda>t. Some (\<lambda>r s. (r, Some (ErrorString ''no such role''))))\<rparr>)
       (boxed_string ''admin'') Role =
     Returned (None, Some (UnmarshalerError (ErrorString ''no such role'') ''admin'' Role))
   \<and> TypeName Role = ''Role''"
  using text_to_unmarshaler [of Role test_lib Role_UnmarshalString "''admin''"]
    text_to_unmarshaler [of Role
      "test_lib\<lparr>Unmarshaler := (\<lambda>t. Some (\<lambda>r s. (r, Some (ErrorString ''no such role''))))\<rparr>"
      "\<lambda>r s. (r, Some (ErrorString ''no such role''))" "''admin''"]
  by (simp add: Role_def test_lib_def Role_UnmarshalString_def)

text \<open>
  Claim C8. For every integer type \<open>T\<close> and every value \<open>v\<close> of \<open>T\<close>, the decimal text
  of \<open>v\<close> (as \<open>%d\<close> prints it) cast to a target of the kind of \<open>T\<close> gives \<open>v\<close> with
  the type \<open>T\<close>, and that value cast to a target of string kind gives the same text.
\<close>

theorem integer_text_round_trip:
  assumes "TypeKind to = kind_of_basic T" "TypeKind ts = KString"
    and "(T \<in> set signed_types \<and> - (2 ^ (Bits T - 1)) \<le> v \<and> v < 2 ^ (Bits T - 1))
       \<or> (T \<in> set unsigned_types \<and> 0 \<le> v \<and> v < 2 ^ Bits T)"
  shows "DefaultCast E (boxed_string (FormatInt v)) to = Returned (Some (Predeclared T, DInt v), None)
       \<and> DefaultCast E (Some (Predeclared T, DInt v)) ts = Returned (boxed_string (FormatInt v), None)"
proof
  have "Predeclared T \<in> set numeric_types"
    using assms(3) by (auto simp: numeric_types_def signed_types_def unsigned_types_def)
  then show "DefaultCast E (Some (Predeclared T, DInt v)) ts = Returned (boxed_string (FormatInt v), None)"
    using assms(2) by (rule integer_to_text)
  have cast: "DefaultCast E (boxed_string (FormatInt v)) to = Returned (parse E T (FormatInt v))"
    using assms(1,3) by (intro DefaultCast_text_numeric) auto
  from assms(3) show "DefaultCast E (boxed_string (FormatInt v)) to =
      Returned (Some (Predeclared T, DInt v), None)"
  proof
    assume s: "T \<in> set signed_types \<and> - (2 ^ (Bits T - 1)) \<le> v \<and> v < 2 ^ (Bits T - 1)"
    then have T: "T \<in> set signed_types" by simp
    then have b: "2 \<le> Bits T" "Bits T \<le> 64" using Bits_signed by auto
    have "ParseInt (FormatInt v) (Bits T) = (v, None)"
      using b signed_literal_FormatInt s by (intro ParseInt_in_range) simp_all
    moreover have "conv_int T v = DInt v"
      using b(1) s by (intro conv_int_in_range) simp_all
    ultimately show ?thesis by (simp add: cast parse_signed [OF T])
  next
    assume u: "T \<in> set unsigned_types \<and> 0 \<le> v \<and> v < 2 ^ Bits T"
    then have T: "T \<in> set unsigned_types" by simp
    then have b: "Bits T \<le> 64" by (rule Bits_unsigned)
    have lt: "nat v < 2 ^ Bits T" using u by (simp add: nat_less_iff)
    then have "nat v \<le> maxVal (Bits T)" unfolding maxVal_eq [OF b] by linarith
    with b unsigned_literal_FormatInt have "ParseUint (FormatInt v) (Bits T) = (nat v, None)"
      using u by (intro ParseUint_in_range) simp_all
    moreover have "conv_uint T (nat v) = DInt v"
      using lt u by (simp add: conv_uint_in_range)
    ultimately show ?thesis by (simp add: cast parse_unsigned [OF T])
  qed
qed

text \<open>The least \<open>int8\<close> and the greatest \<open>uint64\<close>.\<close>

theorem integer_text_round_trip_witness:
  "FormatInt (- 128) = ''-128''
   \<and> DefaultCast test_lib (boxed_string ''-128'') (Predeclared TInt8) =
       Returned (Some (Predeclared TInt8, DInt (- 128)), None)
   \<and> DefaultCast test_lib (Some (Predeclared TInt8, DInt (- 128))) (Predeclared TString) =
       Returned (boxed_string ''-128'', None)
   \<and> FormatInt 18446744073709551615 = ''18446744073709551615''
   \<and> DefaultCast test_lib (boxed_string ''18446744073709551615'') (Predeclared TUint64) =
       Returned (Some (Predeclared TUint64, DInt 18446744073709551615), None)
   \<and> DefaultCast test_lib (Some (Predeclared TUint64, DInt 18446744073709551615))
         (Predeclared TString) =
       Returned (boxed_string ''18446744073709551615'', None)"
proof -
  have f1: "FormatInt (- 128) = ''-128''"
    by (simp add: FormatInt_def digits.simps digit_char_simps)
  have f2: "FormatInt 18446744073709551615 = ''18446744073709551615''"
    by (simp add: FormatInt_def digits.simps digit_char_simps)
  from integer_text_round_trip [where to = "Predeclared TInt8" and T = TInt8 and ts = "Predeclared TString" and v = "- 128" and E = test_lib]
  have a: "DefaultCast test_lib (boxed_string (FormatInt (- 128))) (Predeclared TInt8) =
             Returned (Some (Predeclared TInt8, DInt (- 128)), None)
         \<and> DefaultCast test_lib (Some (Predeclared TInt8, DInt (- 128))) (Predeclared TString) =
             Returned (boxed_string (FormatInt (- 128)), None)"
    by (simp add: signed_types_def)
  from integer_text_round_trip [where to = "Predeclared TUint64" and T = TUint64
      and ts = "Predeclared TString" and v = 18446744073709551615 and E = test_lib]
  have b: "DefaultCast test_lib (boxed_string (FormatInt 18446744073709551615)) (Predeclared TUint64) =
             Returned (Some (Predeclared TUint64, DInt 18446744073709551615), None)
         \<and> DefaultCast test_lib (Some (Predeclared TUint64, DInt 18446744073709551615))
               (Predeclared TString) =
             Returned (boxed_string (FormatInt 18446744073709551615), None)"
    by (simp add: unsigned_types_def)
  show ?thesis using a b unfolding f1 f2 by (simp add: f1 f2)
qed

text \<open>
  Claim C9. The claim says that a float cast to text is printed as a decimal integer. For
  a float the verb \<open>%d\<close> is wrong, and the text returned is the report of \<open>fmt\<close>,
  which starts with \<open>%!d(\<close>. (Integers of all widths are printed in decimal:
  \<open>integer_to_text\<close>.)
\<close>

theorem float_to_text_is_bad_verb:
  assumes "TypeKind to = KString"
  shows "DefaultCast E (Some (Predeclared TFloat64, DFloat64 w)) to =
           Returned (boxed_string (''%!d(float64='' @ FormatFloat64 E w @ '')''), None)
       \<and> DefaultCast E (Some (Predeclared TFloat32, DFloat32 w')) to =
           Returned (boxed_string (''%!d(float32='' @ FormatFloat32 E w' @ '')''), None)"
  using assms by (simp add: DefaultCast.simps numeric_types_def Sprintf_d_def)

theorem float_to_text_is_bad_verb_witness:
  "DefaultCast (test_lib\<lparr>FormatFloat64 := (\<lambda>w. if w = 0x3FF8000000000000 then ''1.5'' else [])\<rparr>)
     (Some (Predeclared TFloat64, DFloat64 0x3FF8000000000000)) (Predeclared TString) =
       Returned (Some (Predeclared TString, DString ''%!d(float64=1.5)''), None)"
  using float_to_text_is_bad_verb [of "Predeclared TString"
      "test_lib\<lparr>FormatFloat64 := (\<lambda>w. if w = 0x3FF8000000000000 then ''1.5'' else [])\<rparr>"
      "0x3FF8000000000000" 0]
  by (simp add: boxed_string_def)

text \<open>
  Claim C10. \<open>Decode\<close> stores the result of a successful \<open>Cast\<close> with \<open>Value.Set\<close> and
  no check. If the loop reaches a field whose raw value is present, not zero and not
  assignable, and \<open>Cast\<close> returns a nil error with a value whose dynamic type is not
  assignable to the field's type, then \<open>Decode\<close> panics. The default coercion does so
  for a field of a defined type of integer kind, for which it returns an \<open>int\<close>.
\<close>

theorem decode_panics_on_unassignable_cast_result:
  assumes before: "list_all (passes d (record_type pkg name (pre @ (f, v) # post))) pre"
    and f: "IsExported f" "Lookup (Tag f) (key d) = Some tag" "getter d tag = Some (tt, tv)"
      "\<not> IsZero tv" "\<not> AssignableTo tt (Type f)"
    and c: "caster d = Some c" "c (Some (tt, tv)) (Type f) = Returned (Some (ct, cv), None)"
      "\<not> AssignableTo ct (Type f)"
  shows "fst (Decode d (struct_ptr pkg name (pre @ (f, v) # post))) = Panic"
proof -
  let ?rt = "record_type pkg name (pre @ (f, v) # post)"
  have "decode_field d ?rt f v = Stop Panic"
    using decode_field_coerced [OF f c(1,2)] c(3) by simp
  then have "fst (decode_fields d ?rt (pre @ (f, v) # post)) = Panic"
    using decode_fields_append [OF before, of "(f, v) # post"] by simp
  then show ?thesis
    by (subst Decode_struct_ptr) simp
qed

text \<open>
  A field of the defined type \<open>MyInt\<close> (underlying type \<open>int\<close>) and the text \<open>5\<close>.
\<close>

theorem decode_panics_on_unassignable_cast_result_witness:
  "(let d = New (values_getter [(''a'', ''2''), (''n'', ''5'')])
                (Some (DefaultCast test_lib)) ''query'';
        MyInt = Named ''main'' ''MyInt'' (Predeclared TInt);
        A = tagged ''A'' (Predeclared TUint32) ''query'' ''a'';
        N = tagged ''N'' MyInt ''query'' ''n''
    in DefaultCast test_lib (getter d ''n'') MyInt = Returned (Some (Predeclared TInt, DInt 5), None)
       \<and> \<not> AssignableTo (Predeclared TInt) MyInt
       \<and> fst (Decode d (struct_ptr ''main'' ''Params'' [(A, DInt 0), (N, DInt 0)])) = Panic)"
proof -
  let ?d = "New (values_getter [(''a'', ''2''), (''n'', ''5'')])
                (Some (DefaultCast test_lib)) ''query''"
  let ?MyInt = "Named ''main'' ''MyInt'' (Predeclared TInt)"
  let ?A = "tagged ''A'' (Predeclared TUint32) ''query'' ''a''"
  let ?N = "tagged ''N'' ?MyInt ''query'' ''n''"
  have A: "decode_field ?d rt ?A (DInt 0) = Continue (DInt 2)" for rt
    by (simp add: decode_field_def IsExported_def Lookup_def fixture_defs eval_defs)
  have before: "list_all (passes ?d (record_type ''main'' ''Params''
                   ([(?A, DInt 0)] @ (?N, DInt 0) # []))) [(?A, DInt 0)]"
    by (simp add: passes_def A)
  have f: "IsExported ?N" "Lookup (Tag ?N) (key ?d) = Some ''n''"
    "getter ?d ''n'' = Some (Predeclared TString, DString ''5'')"
    "\<not> IsZero (DString ''5'')" "\<not> AssignableTo (Predeclared TString) (Type ?N)"
    by (simp_all add: IsExported_def Lookup_def fixture_defs eval_defs)
  have c: "caster ?d = Some (DefaultCast test_lib)"
    "DefaultCast test_lib (Some (Predeclared TString, DString ''5'')) (Type ?N) =
       Returned (Some (Predeclared TInt, DInt 5), None)"
    "\<not> AssignableTo (Predeclared TInt) (Type ?N)"
    by (simp_all add: fixture_defs eval_defs)
  show ?thesis
    unfolding Let_def
    using decode_panics_on_unassignable_cast_result [OF before f c] f(3) c(2,3)
    by (simp add: tagged_def)
qed

end
